theory Spec2Isabelle
  imports Main "HOL-Library.Word"
begin

unbundle bit_operations_syntax

section \<open>JavaScript values\<close>

text \<open>
  A JavaScript string is a sequence of UTF-16 code units. String literals of the source
  are ASCII and are written \<open>js ''...''\<close>.
\<close>

type_synonym jsstring = "16 word list"

definition js :: "string \<Rightarrow> jsstring" where
  "js s = map of_char s"

text \<open>
  The values \<open>JSON.parse\<close> produces. A number is kept as the bit pattern of its IEEE 754
  double; an object is the list of its own properties in enumeration order, each name
  once. The value \<open>undefined\<close> is not a JSON value: a property read that yields it is
  modelled by \<open>None\<close>.
\<close>

datatype jv =
    JNull
  | JBool bool
  | JNum "64 word"
  | JStr jsstring
  | JArr "jv list"
  | JObj "(jsstring \<times> jv) list"

text \<open>
  ToBoolean: \<open>null\<close>, \<open>false\<close>, \<open>+0\<close>, \<open>-0\<close>, \<open>NaN\<close> and the empty string are falsy,
  everything else (every array and object too) is truthy. For a double, clearing the sign
  bit leaves zero for \<open>+0\<close> and \<open>-0\<close>, and a value above the bit pattern of infinity
  for a \<open>NaN\<close>.
\<close>

fun truthy :: "jv \<Rightarrow> bool" where
  "truthy JNull = False"
| "truthy (JBool b) = b"
| "truthy (JNum n) =
     (n AND 0x7FFFFFFFFFFFFFFF \<noteq> 0 \<and> n AND 0x7FFFFFFFFFFFFFFF \<le> 0x7FF0000000000000)"
| "truthy (JStr s) = (s \<noteq> [])"
| "truthy (JArr xs) = True"
| "truthy (JObj kvs) = True"

text \<open>
  The property reads of the source are \<open>v?.question\<close>, \<open>v?.detail\<close>, \<open>v.answer\<close> and
  \<open>v.route\<close>. None of these names is a built-in property of a string, number, boolean or
  array, so the read yields \<open>undefined\<close> on every value but an object that has the
  property. (\<open>v?.k\<close> on \<open>null\<close> is \<open>undefined\<close>; \<open>v.k\<close> on \<open>null\<close> throws, which the
  caller of \<open>opt_prop\<close> models where the source has no \<open>?.\<close>.)
\<close>

fun opt_prop :: "jv \<Rightarrow> jsstring \<Rightarrow> jv option" where
  "opt_prop (JObj kvs) k = map_of kvs k"
| "opt_prop v k = None"

text \<open>\<open>x || d\<close> for a possibly undefined \<open>x\<close>.\<close>

fun or_else :: "jv option \<Rightarrow> jv \<Rightarrow> jv" where
  "or_else None d = d"
| "or_else (Some v) d = (if truthy v then v else d)"

text \<open>
  \<open>String.prototype.trim\<close> removes the code units of WhiteSpace and LineTerminator
  (ECMAScript, sections 12.2 and 12.3) from both ends.
\<close>

definition is_js_space :: "16 word \<Rightarrow> bool" where
  "is_js_space c =
     (c \<in> {0x0009, 0x000A, 0x000B, 0x000C, 0x000D, 0x0020, 0x00A0, 0x1680,
            0x2028, 0x2029, 0x202F, 0x205F, 0x3000, 0xFEFF}
      \<or> (0x2000 \<le> c \<and> c \<le> 0x200A))"

definition trim :: "jsstring \<Rightarrow> jsstring" where
  "trim s = rev (dropWhile is_js_space (rev (dropWhile is_js_space s)))"

text \<open>
  What a \<^verbatim>\<open>try\<close> block can catch. \<open>TypeError\<close>, \<open>RangeError\<close> and \<open>SyntaxError\<close> are
  the platform's error objects; each carries the platform's message text.
\<close>

datatype exn =
    TypeError jsstring
  | RangeError jsstring
  | SyntaxError jsstring

text \<open>
  The method call \<open>v.trim()\<close>: only a string has the method. On any other truthy value
  \<open>v.trim\<close> is \<open>undefined\<close> or (an own property of a parsed object) a JSON value, and
  calling it throws a TypeError.
\<close>

fun call_trim :: "jv \<Rightarrow> exn + jsstring" where
  "call_trim (JStr s) = Inr (trim s)"
| "call_trim v = Inl (TypeError (js ''trim is not a function''))"

section \<open>HTTP\<close>

text \<open>
  An outbound \<open>fetch\<close> call. \<open>http_method\<close> is the \<open>method\<close> option, \<open>body\<close> is
  the value handed to \<open>JSON.stringify\<close>, \<open>cache\<close> is the \<open>cache\<close> option when the call
  gives one.
\<close>

record fetch_request =
  url :: jsstring
  http_method :: jsstring
  headers :: "(jsstring \<times> jsstring) list"
  body :: jv
  cache :: "jsstring option"

text \<open>
  How a \<open>fetch\<close> settles: the promise rejects (with an error carrying a message), or it
  resolves to a response with a status whose \<open>json()\<close> either rejects (\<open>Inl\<close>, the
  message) or yields the parsed body (\<open>Inr\<close>).
\<close>

datatype fetch_outcome =
    Rejected jsstring
  | Responded nat "jsstring + jv"

definition ok :: "nat \<Rightarrow> bool" where
  "ok st = (200 \<le> st \<and> st \<le> 299)"

record http_response =
  status :: nat
  json :: jv

text \<open>
  What a value is once \<open>JSON.stringify\<close> has written it and the receiver has parsed the
  text. \<open>JSON.stringify\<close> writes \<open>null\<close> for a number that is not finite (all exponent
  bits set: the infinities that \<open>JSON.parse\<close> gives for a literal like \<open>1e400\<close>, and
  \<open>NaN\<close>) and \<open>0\<close> for \<open>-0\<close>; every other number is written with digits that parse
  back to it, and strings, booleans, \<open>null\<close>, arrays and objects keep their shape.
\<close>

fun stringify_parse :: "jv \<Rightarrow> jv" where
  "stringify_parse JNull = JNull"
| "stringify_parse (JBool b) = JBool b"
| "stringify_parse (JNum n) =
     (if n AND 0x7FF0000000000000 = 0x7FF0000000000000 then JNull
      else if n = 0x8000000000000000 then JNum 0
      else JNum n)"
| "stringify_parse (JStr s) = JStr s"
| "stringify_parse (JArr xs) = JArr (map stringify_parse xs)"
| "stringify_parse (JObj kvs) = JObj (map (\<lambda>(k, v). (k, stringify_parse v)) kvs)"

text \<open>The values that hold no number which \<open>JSON.stringify\<close> rewrites.\<close>

fun plain :: "jv \<Rightarrow> bool" where
  "plain (JNum n) =
     (n AND 0x7FF0000000000000 \<noteq> 0x7FF0000000000000 \<and> n \<noteq> 0x8000000000000000)"
| "plain (JArr xs) = list_all plain xs"
| "plain (JObj kvs) = list_all (\<lambda>(k, v). plain v) kvs"
| "plain v = True"

text \<open>
  \<open>NextResponse.json(data, {status})\<close> builds the response through the \<open>Response\<close>
  constructor of the Fetch standard, which throws a RangeError for a status outside
  200..599 and a TypeError when a body is given with a null-body status (204, 205, 304).
  The body is the text \<open>JSON.stringify(data)\<close>; \<open>json\<close> is what that text parses to.
\<close>

definition NextResponse_json :: "jv \<Rightarrow> nat \<Rightarrow> exn + http_response" where
  "NextResponse_json data st =
     (if st < 200 \<or> 599 < st then Inl (RangeError (js ''invalid status''))
      else if st = 204 \<or> st = 205 \<or> st = 304 then Inl (TypeError (js ''null body status''))
      else Inr \<lparr>status = st, json = stringify_parse data\<rparr>)"

section \<open>The proxy route\<close>

record process_env =
  BACKEND_BASE_URL :: "jsstring option"
  BACKEND_API_KEY :: "jsstring option"

record backend_config =
  baseUrl :: jsstring
  apiKey :: jsstring

text \<open>\<open>process.env.NAME || d\<close>: an environment variable is a string or is unset.\<close>

fun env_or :: "jsstring option \<Rightarrow> jsstring \<Rightarrow> jsstring" where
  "env_or None d = d"
| "env_or (Some s) d = (if s \<noteq> [] then s else d)"

definition backendConfig :: "process_env \<Rightarrow> backend_config" where
  "backendConfig env =
     \<lparr>baseUrl = env_or (BACKEND_BASE_URL env) (js ''http://127.0.0.1:8001''),
      apiKey = env_or (BACKEND_API_KEY env) []\<rparr>"

definition detail_body :: "jv \<Rightarrow> jv" where
  "detail_body v = JObj [(js ''detail'', v)]"

text \<open>
  The body of the \<^verbatim>\<open>try\<close> block of \<open>POST\<close>. The request is the result of
  \<open>request.json()\<close>: \<open>Inl\<close> when it rejects, else the parsed body. The outcome of the
  outbound \<open>fetch\<close> is an input, read only when the call is made. The result is what the
  block returns or throws, with the outbound calls made on the way.
\<close>

definition POST_try ::
  "process_env \<Rightarrow> exn + jv \<Rightarrow> fetch_outcome \<Rightarrow> (exn + http_response) \<times> fetch_request list"
where
  "POST_try env request outcome =
     (case request of
        Inl e \<Rightarrow> (Inl e, [])
      | Inr parsed_body \<Rightarrow>
         (case call_trim (or_else (opt_prop parsed_body (js ''question'')) (JStr [])) of
            Inl e \<Rightarrow> (Inl e, [])
          | Inr trimmed \<Rightarrow>
             if trimmed = [] then
               (NextResponse_json (detail_body (JStr (js ''Question is required.''))) 400, [])
             else
               let cfg = backendConfig env;
                   hs = [(js ''Content-Type'', js ''application/json'')]
                        @ (if apiKey cfg \<noteq> [] then [(js ''X-API-Key'', apiKey cfg)] else []);
                   req = \<lparr>url = baseUrl cfg @ js ''/query'',
                          http_method = js ''POST'',
                          headers = hs,
                          body = JObj [(js ''question'', JStr trimmed)],
                          cache = Some (js ''no-store'')\<rparr>
               in (case outcome of
                     Rejected m \<Rightarrow> (Inl (TypeError m), [req])
                   | Responded st parsed \<Rightarrow>
                      let payload =
                            (case parsed of
                               Inl m \<Rightarrow> detail_body (JStr (js ''Invalid backend response.''))
                             | Inr p \<Rightarrow> p)
                      in if \<not> ok st then
                           (NextResponse_json
                              (detail_body (or_else (opt_prop payload (js ''detail''))
                                              (JStr (js ''Backend request failed.''))))
                              st,
                            [req])
                         else (NextResponse_json payload 200, [req]))))"

text \<open>
  \<open>POST\<close>: whatever the block throws is caught, and the handler answers 500. The result
  is still a sum, so that "no exception leaves the handler" is a statement to prove.
\<close>

definition POST ::
  "process_env \<Rightarrow> exn + jv \<Rightarrow> fetch_outcome \<Rightarrow> (exn + http_response) \<times> fetch_request list"
where
  "POST env request outcome =
     (case POST_try env request outcome of
        (Inl e, calls) \<Rightarrow>
          (NextResponse_json (detail_body (JStr (js ''Failed to process request.''))) 500, calls)
      | (Inr r, calls) \<Rightarrow> (Inr r, calls))"

section \<open>The voice page\<close>

text \<open>
  What the page asks of the browser. \<open>window\<close> is \<open>None\<close> where
  \<open>typeof window === "undefined"\<close>. \<open>numberToString\<close> is Number::toString of
  ECMAScript; \<open>nullReadMessage\<close> and \<open>convertMessage\<close> are the messages of the
  TypeErrors the engine throws on reading a property of \<open>null\<close> and on converting an
  object that has no usable \<open>toString\<close> to a string. All three are parameters of the
  model.
\<close>

record window =
  SpeechRecognition :: bool
  speechSynthesis :: bool

record browser =
  window :: "window option"
  numberToString :: "64 word \<Rightarrow> jsstring"
  nullReadMessage :: jsstring
  convertMessage :: jsstring

text \<open>
  ToString on a JSON value, as the \<open>Error\<close> constructor applies it to its message and
  the \<open>SpeechSynthesisUtterance\<close> constructor to its text. An array is joined with
  commas, \<open>null\<close> elements giving the empty string. An object goes through
  \<open>Object.prototype.toString\<close>, unless it has an own property \<open>toString\<close>: that is a
  JSON value, not a function, \<open>valueOf\<close> gives no primitive either, and the conversion
  throws a TypeError. The first element of an array that throws ends the conversion.
\<close>

fun collect :: "('e + 'a) list \<Rightarrow> 'e + 'a list" where
  "collect [] = Inr []"
| "collect (Inl e # xs) = Inl e"
| "collect (Inr a # xs) = (case collect xs of Inl e \<Rightarrow> Inl e | Inr as \<Rightarrow> Inr (a # as))"

fun join_comma :: "jsstring list \<Rightarrow> jsstring" where
  "join_comma [] = []"
| "join_comma [x] = x"
| "join_comma (x # y # ys) = x @ js '','' @ join_comma (y # ys)"

fun ToString :: "browser \<Rightarrow> jv \<Rightarrow> exn + jsstring" where
  "ToString br JNull = Inr (js ''null'')"
| "ToString br (JBool b) = Inr (if b then js ''true'' else js ''false'')"
| "ToString br (JNum n) = Inr (numberToString br n)"
| "ToString br (JStr s) = Inr s"
| "ToString br (JArr xs) =
     map_sum id join_comma
       (collect (map (\<lambda>x. if x = JNull then Inr [] else ToString br x) xs))"
| "ToString br (JObj kvs) =
     (if js ''toString'' \<in> fst ` set kvs then Inl (TypeError (convertMessage br))
      else Inr (js ''[object Object]''))"

text \<open>The recognizer object that \<open>createSpeechRecognition\<close> configures.\<close>

record recognizer =
  lang :: jsstring
  interimResults :: bool
  maxAlternatives :: nat

definition createSpeechRecognition :: "browser \<Rightarrow> recognizer option" where
  "createSpeechRecognition br =
     (case window br of
        None \<Rightarrow> None
      | Some w \<Rightarrow>
          if \<not> SpeechRecognition w then None
          else Some \<lparr>lang = js ''en-US'', interimResults = False, maxAlternatives = 1\<rparr>)"

text \<open>
  What \<open>normalizeMessage\<close> tells apart in its argument: a falsy value, a string, an
  error object. \<open>Error\<close> is an error object made by \<open>new Error(message)\<close>.
\<close>

datatype thrown =
    ThrownFalsy
  | ThrownString jsstring
  | ThrownError exn
  | Error jsstring

fun normalizeMessage :: "thrown \<Rightarrow> jsstring" where
  "normalizeMessage ThrownFalsy = js ''Something went wrong.''"
| "normalizeMessage (ThrownString s) = (if s = [] then js ''Something went wrong.'' else s)"
| "normalizeMessage (ThrownError (TypeError m)) = (if m \<noteq> [] then m else js ''Something went wrong.'')"
| "normalizeMessage (ThrownError (RangeError m)) = (if m \<noteq> [] then m else js ''Something went wrong.'')"
| "normalizeMessage (ThrownError (SyntaxError m)) = (if m \<noteq> [] then m else js ''Something went wrong.'')"
| "normalizeMessage (Error m) = (if m \<noteq> [] then m else js ''Something went wrong.'')"

text \<open>
  The state of \<open>HomePage\<close>: the eight \<open>useState\<close> cells and the \<open>useRef\<close> cell,
  followed by a log of what the page has asked of the platform: the \<open>fetch\<close> calls made
  and how many of them have not settled yet, the calls of \<open>speechSynthesis.cancel\<close>, the
  texts of the utterances handed to \<open>speechSynthesis.speak\<close>, and the calls of \<open>start\<close>
  and \<open>stop\<close> on a recognizer.
\<close>

record page =
  question :: jsstring
  answer :: jv
  route :: jv
  listening :: bool
  loading :: bool
  error :: jsstring
  mounted :: bool
  speechSupported :: bool
  recognitionRef :: "recognizer option"
  fetches :: "fetch_request list"
  pending :: nat
  cancels :: nat
  utterances :: "jsstring list"
  starts :: nat
  stops :: nat

definition initial :: page where
  "initial =
     \<lparr>question = [], answer = JStr [], route = JStr [], listening = False, loading = False,
      error = [], mounted = False, speechSupported = False, recognitionRef = None,
      fetches = [], pending = 0, cancels = 0, utterances = [], starts = 0, stops = 0\<rparr>"

text \<open>The effect hook that runs once after the first render.\<close>

definition useEffect_mount :: "browser \<Rightarrow> page \<Rightarrow> page" where
  "useEffect_mount br s =
     s\<lparr>mounted := True,
       speechSupported := (case window br of None \<Rightarrow> False | Some w \<Rightarrow> SpeechRecognition w)\<rparr>"

text \<open>
  \<open>speak\<close>: the state it leaves, and what it throws if it throws. The utterance's text
  is the argument converted to a string; when the conversion throws, playback has been
  cancelled and nothing is spoken.
\<close>

definition speak :: "browser \<Rightarrow> jv \<Rightarrow> page \<Rightarrow> page \<times> exn option" where
  "speak br text s =
     (case window br of
        None \<Rightarrow> (s, None)
      | Some w \<Rightarrow>
          if \<not> speechSynthesis w then (s, None)
          else
            let s1 = s\<lparr>cancels := cancels s + 1\<rparr>
            in (case ToString br text of
                  Inl e \<Rightarrow> (s1, Some e)
                | Inr t \<Rightarrow> (s1\<lparr>utterances := utterances s1 @ [t]\<rparr>, None)))"

text \<open>
  \<open>askQuestion\<close> is asynchronous. \<open>askQuestion_start\<close> is the part that runs at the call,
  up to the \<open>fetch\<close>: \<open>None\<close> when the function returns at once. Every caller passes a
  string, on which \<open>text || ""\<close> is \<open>text\<close>.
\<close>

definition askQuestion_start :: "jsstring \<Rightarrow> page \<Rightarrow> page option" where
  "askQuestion_start text s =
     (let cleaned = trim text in
      if cleaned = [] then None
      else Some (s\<lparr>loading := True,
                   error := [],
                   fetches := fetches s @
                     [\<lparr>url = js ''/api/ask'',
                       http_method = js ''POST'',
                       headers = [(js ''Content-Type'', js ''application/json'')],
                       body = JObj [(js ''question'', JStr cleaned)],
                       cache = None\<rparr>],
                   pending := pending s + 1\<rparr>))"

text \<open>
  The rest of the \<^verbatim>\<open>try\<close> block, run when the \<open>fetch\<close> settles: the state it leaves,
  and what it throws if it throws. \<open>new Error(v)\<close> converts \<open>v\<close> to a string and throws
  what the conversion throws. When \<open>speak\<close> throws, \<open>answer\<close> and \<open>route\<close> are already
  written.
\<close>

definition askQuestion_try ::
  "browser \<Rightarrow> fetch_outcome \<Rightarrow> page \<Rightarrow> page \<times> thrown option"
where
  "askQuestion_try br outcome s =
     (case outcome of
        Rejected m \<Rightarrow> (s, Some (ThrownError (TypeError m)))
      | Responded st parsed \<Rightarrow>
         (case parsed of
            Inl m \<Rightarrow> (s, Some (ThrownError (SyntaxError m)))
          | Inr data \<Rightarrow>
             if \<not> ok st then
               (case ToString br (or_else (opt_prop data (js ''detail''))
                                   (JStr (js ''Request failed.''))) of
                  Inl e \<Rightarrow> (s, Some (ThrownError e))
                | Inr m \<Rightarrow> (s, Some (Error m)))
             else if data = JNull then (s, Some (ThrownError (TypeError (nullReadMessage br))))
             else
               let s1 = s\<lparr>answer := or_else (opt_prop data (js ''answer'')) (JStr [])\<rparr>;
                   s2 = s1\<lparr>route := or_else (opt_prop data (js ''route'')) (JStr [])\<rparr>
               in (case opt_prop data (js ''answer'') of
                     None \<Rightarrow> (s2, None)
                   | Some a \<Rightarrow>
                       if truthy a then
                         (case speak br a s2 of
                            (s3, None) \<Rightarrow> (s3, None)
                          | (s3, Some e) \<Rightarrow> (s3, Some (ThrownError e)))
                       else (s2, None))))"

text \<open>The \<^verbatim>\<open>catch\<close> and \<^verbatim>\<open>finally\<close> blocks after it; the call is then no longer pending.\<close>

definition askQuestion_settle :: "browser \<Rightarrow> fetch_outcome \<Rightarrow> page \<Rightarrow> page" where
  "askQuestion_settle br outcome s =
     (let s1 = (case askQuestion_try br outcome s of
                  (s', Some err) \<Rightarrow> s'\<lparr>error := normalizeMessage err\<rparr>
                | (s', None) \<Rightarrow> s')
      in s1\<lparr>loading := False, pending := pending s1 - 1\<rparr>)"

text \<open>One call of \<open>askQuestion\<close> from start to resolution, nothing else happening between.\<close>

definition askQuestion :: "browser \<Rightarrow> jsstring \<Rightarrow> fetch_outcome \<Rightarrow> page \<Rightarrow> page" where
  "askQuestion br text outcome s =
     (case askQuestion_start text s of
        None \<Rightarrow> s
      | Some s1 \<Rightarrow> askQuestion_settle br outcome s1)"

definition onStartListening :: "browser \<Rightarrow> page \<Rightarrow> page" where
  "onStartListening br s =
     (let s1 = s\<lparr>error := []\<rparr> in
      case createSpeechRecognition br of
        None \<Rightarrow> s1\<lparr>error := js ''Speech recognition is not supported in this browser.''\<rparr>
      | Some recognition \<Rightarrow> s1\<lparr>recognitionRef := Some recognition, starts := starts s1 + 1\<rparr>)"

text \<open>The four handlers that \<open>onStartListening\<close> installs on the recognizer.\<close>

definition recognition_onstart :: "page \<Rightarrow> page" where
  "recognition_onstart s = s\<lparr>listening := True\<rparr>"

definition recognition_onerror :: "jsstring \<Rightarrow> page \<Rightarrow> page" where
  "recognition_onerror code s =
     s\<lparr>listening := False,
       error := js ''Voice error: '' @ (if code \<noteq> [] then code else js ''unknown'')\<rparr>"

definition recognition_onend :: "page \<Rightarrow> page" where
  "recognition_onend s = s\<lparr>listening := False\<rparr>"

text \<open>
  The argument is \<open>event.results?.[0]?.[0]?.transcript\<close>, \<open>None\<close> when undefined. The
  handler starts \<open>askQuestion\<close> and does not wait for it.
\<close>

definition recognition_onresult :: "jsstring option \<Rightarrow> page \<Rightarrow> page" where
  "recognition_onresult t s =
     (let transcript = (case t of None \<Rightarrow> [] | Some x \<Rightarrow> if x \<noteq> [] then x else []);
          s1 = s\<lparr>question := transcript\<rparr>
      in case askQuestion_start transcript s1 of None \<Rightarrow> s1 | Some s2 \<Rightarrow> s2)"

definition onStopListening :: "page \<Rightarrow> page" where
  "onStopListening s =
     (let s1 = (case recognitionRef s of None \<Rightarrow> s | Some r \<Rightarrow> s\<lparr>stops := stops s + 1\<rparr>)
      in s1\<lparr>listening := False\<rparr>)"




text \<open>
  What can happen to the page: the effect hook, typing, a click on a button that is
  rendered and not disabled, an event of a recognizer that has been started, the
  settling of a pending \<open>fetch\<close>. \<open>step\<close> is \<open>None\<close> when the event cannot happen in the
  state. It does not ask that the page rendered without throwing, which only adds states
  to those a run can reach. An exception that \<open>speak\<close> throws in the click handler of the
  replay button goes to nobody; the state is as \<open>speak\<close> left it.
\<close>

datatype event =
    Mount
  | Typed jsstring
  | ClickStart
  | ClickStop
  | ClickAsk
  | ClickReplay
  | RecStart
  | RecError jsstring
  | RecEnd
  | RecResult "jsstring option"
  | Settled fetch_outcome

fun step :: "browser \<Rightarrow> page \<Rightarrow> event \<Rightarrow> page option" where
  "step br s Mount = (if mounted s then None else Some (useEffect_mount br s))"
| "step br s (Typed t) = Some (s\<lparr>question := t\<rparr>)"
| "step br s ClickStart =
     (if listening s \<or> loading s then None else Some (onStartListening br s))"
| "step br s ClickStop = (if listening s then Some (onStopListening s) else None)"
| "step br s ClickAsk =
     (if loading s \<or> trim (question s) = [] then None
      else Some (case askQuestion_start (question s) s of None \<Rightarrow> s | Some s1 \<Rightarrow> s1))"
| "step br s ClickReplay =
     (if truthy (answer s) then Some (fst (speak br (answer s) s)) else None)"
| "step br s RecStart =
     (if recognitionRef s = None then None else Some (recognition_onstart s))"
| "step br s (RecError code) =
     (if recognitionRef s = None then None else Some (recognition_onerror code s))"
| "step br s RecEnd =
     (if recognitionRef s = None then None else Some (recognition_onend s))"
| "step br s (RecResult t) =
     (if recognitionRef s = None then None else Some (recognition_onresult t s))"
| "step br s (Settled outcome) =
     (if pending s = 0 then None else Some (askQuestion_settle br outcome s))"

fun run :: "browser \<Rightarrow> page \<Rightarrow> event list \<Rightarrow> page option" where
  "run br s [] = Some s"
| "run br s (e # es) = (case step br s e of None \<Rightarrow> None | Some s1 \<Rightarrow> run br s1 es)"

text \<open>
  Two browsers to run the page in: one with both speech capabilities, one with neither.
  Their \<open>numberToString\<close> is a placeholder: no run below converts a number.
\<close>

definition full_browser :: browser where
  "full_browser =
     \<lparr>window = Some \<lparr>SpeechRecognition = True, speechSynthesis = True\<rparr>,
      numberToString = (\<lambda>n. js ''1''),
      nullReadMessage = js ''Cannot read properties of null'',
      convertMessage = js ''Cannot convert object to primitive value''\<rparr>"

definition plain_browser :: browser where
  "plain_browser =
     \<lparr>window = Some \<lparr>SpeechRecognition = False, speechSynthesis = False\<rparr>,
      numberToString = (\<lambda>n. js ''1''),
      nullReadMessage = js ''Cannot read properties of null'',
      convertMessage = js ''Cannot convert object to primitive value''\<rparr>"

subsection \<open>Invariants of the runs\<close>


text \<open>
  An event overlaps when it starts a call of \<open>askQuestion\<close> that reaches the \<open>fetch\<close>
  while another call is pending. A run is calm when none of its events does.
\<close>

fun overlaps :: "page \<Rightarrow> event \<Rightarrow> bool" where
  "overlaps s ClickAsk = (pending s \<noteq> 0)"
| "overlaps s (RecResult t) =
     (pending s \<noteq> 0 \<and> (case t of None \<Rightarrow> False | Some x \<Rightarrow> trim x \<noteq> []))"
| "overlaps s e = False"

fun calm :: "browser \<Rightarrow> page \<Rightarrow> event list \<Rightarrow> bool" where
  "calm br s [] = True"
| "calm br s (e # es) =
     (\<not> overlaps s e \<and> (case step br s e of None \<Rightarrow> True | Some s1 \<Rightarrow> calm br s1 es))"


section \<open>Validation in the proxy route\<close>

lemma js_Nil_iff: "js s = [] \<longleftrightarrow> s = []"
  by (simp add: js_def)

text \<open>
  Claim C4. A request body whose \<open>question\<close> is a string that trims to the empty string is
  answered with status 400 and the body \<open>{detail: "Question is required."}\<close>, and the
  handler makes no outbound call, whatever the environment and whatever the backend would
  have answered.
\<close>

theorem POST_empty_question_400:
  assumes "opt_prop b (js ''question'') = Some (JStr q)" and "trim q = []"
  shows "POST env (Inr b) outcome =
           (Inr \<lparr>status = 400, json = JObj [(js ''detail'', JStr (js ''Question is required.''))]\<rparr>, [])"
  using assms
  by (cases "q = []") (simp_all add: POST_def POST_try_def NextResponse_json_def detail_body_def)

theorem POST_empty_question_400_witness:
  "opt_prop (JObj [(js ''question'', JStr (js '' ''))]) (js ''question'') = Some (JStr (js '' ''))
   \<and> trim (js '' '') = []
   \<and> POST \<lparr>BACKEND_BASE_URL = None, BACKEND_API_KEY = None\<rparr>
         (Inr (JObj [(js ''question'', JStr (js '' ''))])) (Rejected []) =
       (Inr \<lparr>status = 400, json = JObj [(js ''detail'', JStr (js ''Question is required.''))]\<rparr>, [])"
proof -
  have h1: "opt_prop (JObj [(js ''question'', JStr (js '' ''))]) (js ''question'') = Some (JStr (js '' ''))"
    by simp
  have h2: "trim (js '' '') = []"
    by (simp add: trim_def is_js_space_def js_def)
  show ?thesis
    using h1 h2 POST_empty_question_400 [OF h1 h2] by simp
qed

section \<open>Forwarding\<close>

lemma header_names_differ: "js ''X-API-Key'' \<noteq> js ''Content-Type''"
  by (simp add: js_def)

lemma POST_try_forward:
  assumes "opt_prop b (js ''question'') = Some (JStr q)" and "trim q \<noteq> []"
  shows "snd (POST_try env (Inr b) outcome) =
           [\<lparr>url = baseUrl (backendConfig env) @ js ''/query'',
             http_method = js ''POST'',
             headers = [(js ''Content-Type'', js ''application/json'')]
                       @ (if apiKey (backendConfig env) \<noteq> []
                          then [(js ''X-API-Key'', apiKey (backendConfig env))] else []),
             body = JObj [(js ''question'', JStr (trim q))],
             cache = Some (js ''no-store'')\<rparr>]"
proof -
  from assms have "q \<noteq> []"
    by (auto simp: trim_def)
  with assms show ?thesis
    by (simp add: POST_try_def Let_def split: fetch_outcome.split sum.split)
qed

lemma snd_POST: "snd (POST env request outcome) = snd (POST_try env request outcome)"
  by (simp add: POST_def split: prod.split sum.split)

text \<open>
  Claim C5. For a request body whose \<open>question\<close> is a string with a non-empty trimmed
  form, the handler makes exactly one outbound call: a POST to the base URL followed by
  \<open>/query\<close>, with the body \<open>{question}\<close> holding the trimmed question and caching
  disabled. The base URL is the value of \<open>BACKEND_BASE_URL\<close> when that is set to a
  non-empty string, and \<open>http://127.0.0.1:8001\<close> when it is unset (or empty). The call
  has an \<open>X-API-Key\<close> header if and only if \<open>BACKEND_API_KEY\<close> is set to a non-empty
  string, and then the header's value is that key.
\<close>

theorem POST_one_forward:
  assumes "opt_prop b (js ''question'') = Some (JStr q)" and "trim q \<noteq> []"
  shows "\<exists>req. snd (POST env (Inr b) outcome) = [req]
           \<and> http_method req = js ''POST''
           \<and> url req = baseUrl (backendConfig env) @ js ''/query''
           \<and> (\<forall>u. BACKEND_BASE_URL env = Some u \<and> u \<noteq> [] \<longrightarrow> url req = u @ js ''/query'')
           \<and> (BACKEND_BASE_URL env = Some [] \<longrightarrow> url req = js ''http://127.0.0.1:8001/query'')
           \<and> body req = JObj [(js ''question'', JStr (trim q))]
           \<and> cache req = Some (js ''no-store'')
           \<and> (js ''X-API-Key'' \<in> fst ` set (headers req)
                \<longleftrightarrow> (\<exists>k. BACKEND_API_KEY env = Some k \<and> k \<noteq> []))
           \<and> (\<forall>k. BACKEND_API_KEY env = Some k \<and> k \<noteq> []
                \<longrightarrow> map_of (headers req) (js ''X-API-Key'') = Some k)
           \<and> (BACKEND_BASE_URL env = None \<longrightarrow> url req = js ''http://127.0.0.1:8001/query'')"
proof -
  have key: "apiKey (backendConfig env) \<noteq> [] \<longleftrightarrow> (\<exists>k. BACKEND_API_KEY env = Some k \<and> k \<noteq> [])"
    by (cases "BACKEND_API_KEY env") (simp_all add: backendConfig_def)
  have val: "BACKEND_API_KEY env = Some k \<Longrightarrow> k \<noteq> [] \<Longrightarrow> apiKey (backendConfig env) = k" for k
    by (simp add: backendConfig_def)
  have dflt: "BACKEND_BASE_URL env = None \<or> BACKEND_BASE_URL env = Some [] \<Longrightarrow>
                baseUrl (backendConfig env) @ js ''/query'' = js ''http://127.0.0.1:8001/query''"
    by (auto simp: backendConfig_def js_def)
  have given: "BACKEND_BASE_URL env = Some u \<Longrightarrow> u \<noteq> [] \<Longrightarrow> baseUrl (backendConfig env) = u" for u
    by (simp add: backendConfig_def)
  show ?thesis
    unfolding snd_POST POST_try_forward [OF assms]
    using key val dflt given header_names_differ by (auto simp: image_iff)
qed

theorem POST_one_forward_witness:
  "(\<exists>req. snd (POST \<lparr>BACKEND_BASE_URL = None, BACKEND_API_KEY = Some (js ''k1'')\<rparr>
                (Inr (JObj [(js ''question'', JStr (js '' hi ''))])) (Rejected [])) = [req]
     \<and> url req = js ''http://127.0.0.1:8001/query''
     \<and> body req = JObj [(js ''question'', JStr (js ''hi''))]
     \<and> map_of (headers req) (js ''X-API-Key'') = Some (js ''k1''))
   \<and> (\<exists>req. snd (POST \<lparr>BACKEND_BASE_URL = Some (js ''http://b:9''), BACKEND_API_KEY = None\<rparr>
                (Inr (JObj [(js ''question'', JStr (js '' hi ''))])) (Rejected [])) = [req]
     \<and> url req = js ''http://b:9'' @ js ''/query''
     \<and> js ''X-API-Key'' \<notin> fst ` set (headers req))"
proof -
  have u: "js ''http://b:9'' \<noteq> []"
    by (simp add: js_def)
  have h1: "opt_prop (JObj [(js ''question'', JStr (js '' hi ''))]) (js ''question'') = Some (JStr (js '' hi ''))"
    by simp
  have t: "trim (js '' hi '') = js ''hi''"
    by (simp add: trim_def is_js_space_def js_def)
  have h2: "trim (js '' hi '') \<noteq> []"
    unfolding t by (simp add: js_def)
  have k: "js ''k1'' \<noteq> []"
    by (simp add: js_def)
  have a: "\<exists>req. snd (POST \<lparr>BACKEND_BASE_URL = None, BACKEND_API_KEY = Some (js ''k1'')\<rparr>
                (Inr (JObj [(js ''question'', JStr (js '' hi ''))])) (Rejected [])) = [req]
     \<and> url req = js ''http://127.0.0.1:8001/query''
     \<and> body req = JObj [(js ''question'', JStr (js ''hi''))]
     \<and> map_of (headers req) (js ''X-API-Key'') = Some (js ''k1'')"
    using POST_one_forward [OF h1 h2, of "\<lparr>BACKEND_BASE_URL = None, BACKEND_API_KEY = Some (js ''k1'')\<rparr>" "Rejected []"] k
    unfolding t by auto
  have b: "\<exists>req. snd (POST \<lparr>BACKEND_BASE_URL = Some (js ''http://b:9''), BACKEND_API_KEY = None\<rparr>
                (Inr (JObj [(js ''question'', JStr (js '' hi ''))])) (Rejected [])) = [req]
     \<and> url req = js ''http://b:9'' @ js ''/query''
     \<and> js ''X-API-Key'' \<notin> fst ` set (headers req)"
    using POST_one_forward [OF h1 h2, of "\<lparr>BACKEND_BASE_URL = Some (js ''http://b:9''), BACKEND_API_KEY = None\<rparr>" "Rejected []"] u
    unfolding t by auto
  from a b show ?thesis
    by blast
qed

section \<open>Relaying the backend's answer\<close>

lemma trim_nonempty: "trim q \<noteq> [] \<Longrightarrow> q \<noteq> []"
  by (auto simp: trim_def)

lemma fst_POST_try_responded:
  assumes "opt_prop b (js ''question'') = Some (JStr q)" and "trim q \<noteq> []"
  shows "fst (POST_try env (Inr b) (Responded st parsed)) =
           (if ok st
            then NextResponse_json
                   (case parsed of
                      Inl m \<Rightarrow> detail_body (JStr (js ''Invalid backend response.''))
                    | Inr p \<Rightarrow> p) 200
            else NextResponse_json
                   (detail_body
                      (or_else
                         (opt_prop
                            (case parsed of
                               Inl m \<Rightarrow> detail_body (JStr (js ''Invalid backend response.''))
                             | Inr p \<Rightarrow> p)
                            (js ''detail''))
                         (JStr (js ''Backend request failed.''))))
                   st)"
  using assms trim_nonempty [OF assms(2)]
  by (simp add: POST_try_def Let_def)

lemma fst_POST: 
  "fst (POST env request outcome) =
     (case fst (POST_try env request outcome) of
        Inl e \<Rightarrow> NextResponse_json (detail_body (JStr (js ''Failed to process request.''))) 500
      | Inr r \<Rightarrow> Inr r)"
  by (simp add: POST_def split: prod.split sum.split)

lemma stringify_parse_plain: "plain p \<Longrightarrow> stringify_parse p = p"
  by (induction p) (auto simp: list_all_iff intro!: map_idI)

lemma POST_success_body:
  assumes "opt_prop b (js ''question'') = Some (JStr q)" and "trim q \<noteq> []"
    and "200 \<le> st" and "st \<le> 299"
  shows "fst (POST env (Inr b) (Responded st (Inr payload))) =
           Inr \<lparr>status = 200, json = stringify_parse payload\<rparr>"
  using assms(3,4)
  by (simp add: fst_POST fst_POST_try_responded [OF assms(1,2)] ok_def NextResponse_json_def)

text \<open>
  Claim C6, as stated, does not hold: the payload goes through \<open>JSON.stringify\<close> on its
  way out. A backend payload with the numbers \<open>-0\<close> and \<open>1e400\<close> (parsed as \<open>-0\<close> and
  infinity) is relayed with \<open>0\<close> and \<open>null\<close> in their place.
\<close>

theorem POST_relay_rewrites_numbers_counterexample:
  "fst (POST \<lparr>BACKEND_BASE_URL = None, BACKEND_API_KEY = None\<rparr>
          (Inr (JObj [(js ''question'', JStr (js ''hi''))]))
          (Responded 200 (Inr (JObj [(js ''answer'', JStr (js ''A'')),
                                      (js ''score'', JNum 0x8000000000000000),
                                      (js ''limit'', JNum 0x7FF0000000000000)]))))
   = Inr \<lparr>status = 200,
          json = JObj [(js ''answer'', JStr (js ''A'')), (js ''score'', JNum 0), (js ''limit'', JNull)]\<rparr>
   \<and> JObj [(js ''answer'', JStr (js ''A'')), (js ''score'', JNum 0), (js ''limit'', JNull)]
       \<noteq> JObj [(js ''answer'', JStr (js ''A'')),
                (js ''score'', JNum 0x8000000000000000),
                (js ''limit'', JNum 0x7FF0000000000000)]"
proof -
  have h1: "opt_prop (JObj [(js ''question'', JStr (js ''hi''))]) (js ''question'') = Some (JStr (js ''hi''))"
    by simp
  have h2: "trim (js ''hi'') \<noteq> []"
    by (simp add: trim_def is_js_space_def js_def)
  have h3: "(200::nat) \<le> 200" and h4: "(200::nat) \<le> 299"
    by simp_all
  show ?thesis
    by (simp add: POST_success_body [OF h1 h2 h3 h4])
qed

text \<open>
  Claim C6, amended. When the backend answers with a 2xx status and a body that parses as
  JSON, the handler responds with status 200 and the payload as \<open>JSON.stringify\<close> writes
  it: every number that is not finite is replaced by \<open>null\<close>, \<open>-0\<close> by \<open>0\<close>, and
  nothing else changes. For a payload that holds no such number the body is equal to the
  payload.
\<close>

theorem POST_relays_success:
  assumes "opt_prop b (js ''question'') = Some (JStr q)" and "trim q \<noteq> []"
    and "200 \<le> st" and "st \<le> 299"
  shows "fst (POST env (Inr b) (Responded st (Inr payload))) =
           Inr \<lparr>status = 200, json = stringify_parse payload\<rparr>
         \<and> (plain payload \<longrightarrow>
              fst (POST env (Inr b) (Responded st (Inr payload))) =
                Inr \<lparr>status = 200, json = payload\<rparr>)"
  by (simp add: POST_success_body [OF assms] stringify_parse_plain)

theorem POST_relays_success_witness:
  "plain (JObj [(js ''answer'', JStr (js ''A'')), (js ''route'', JNull)])
   \<and> fst (POST \<lparr>BACKEND_BASE_URL = None, BACKEND_API_KEY = None\<rparr>
          (Inr (JObj [(js ''question'', JStr (js ''hi''))]))
          (Responded 201 (Inr (JObj [(js ''answer'', JStr (js ''A'')), (js ''route'', JNull)]))))
   = Inr \<lparr>status = 200, json = JObj [(js ''answer'', JStr (js ''A'')), (js ''route'', JNull)]\<rparr>"
proof -
  have h1: "opt_prop (JObj [(js ''question'', JStr (js ''hi''))]) (js ''question'') = Some (JStr (js ''hi''))"
    by simp
  have h2: "trim (js ''hi'') \<noteq> []"
    by (simp add: trim_def is_js_space_def js_def)
  have h3: "(200::nat) \<le> 201" and h4: "(201::nat) \<le> 299"
    by simp_all
  have p: "plain (JObj [(js ''answer'', JStr (js ''A'')), (js ''route'', JNull)])"
    by simp
  show ?thesis
    using p POST_relays_success [OF h1 h2 h3 h4,
            of "\<lparr>BACKEND_BASE_URL = None, BACKEND_API_KEY = None\<rparr>"
               "JObj [(js ''answer'', JStr (js ''A'')), (js ''route'', JNull)]"]
    by blast
qed

text \<open>
  Claim C10. The handler reads nothing of the request body but the trimmed \<open>question\<close>:
  two bodies whose \<open>question\<close> strings trim to the same string give the same response and
  the same outbound calls, under the same environment and the same backend behaviour;
  and the body of the outbound call, when one is made, is the object with the single
  property \<open>question\<close> holding the trimmed string.
\<close>

theorem POST_depends_on_trimmed_question_only:
  assumes "opt_prop b1 (js ''question'') = Some (JStr q1)"
    and "opt_prop b2 (js ''question'') = Some (JStr q2)"
    and "trim q1 = trim q2"
  shows "POST env (Inr b1) outcome = POST env (Inr b2) outcome
         \<and> (trim q1 \<noteq> [] \<longrightarrow>
              map body (snd (POST env (Inr b1) outcome)) = [JObj [(js ''question'', JStr (trim q1))]])"
proof -
  have s1: "or_else (opt_prop b1 (js ''question'')) (JStr []) = JStr q1"
    and s2: "or_else (opt_prop b2 (js ''question'')) (JStr []) = JStr q2"
    using assms(1,2) by simp_all
  have "POST_try env (Inr b1) outcome = POST_try env (Inr b2) outcome"
    by (simp add: POST_try_def s1 s2 assms(3))
  then have same: "POST env (Inr b1) outcome = POST env (Inr b2) outcome"
    by (simp add: POST_def)
  have "map body (snd (POST env (Inr b1) outcome)) = [JObj [(js ''question'', JStr (trim q1))]]"
    if "trim q1 \<noteq> []"
    by (simp add: snd_POST POST_try_forward [OF assms(1) that])
  with same show ?thesis
    by simp
qed

theorem POST_depends_on_trimmed_question_only_witness:
  "POST \<lparr>BACKEND_BASE_URL = None, BACKEND_API_KEY = None\<rparr>
     (Inr (JObj [(js ''question'', JStr (js '' hi'')), (js ''debug'', JBool True)])) (Rejected [])
   = POST \<lparr>BACKEND_BASE_URL = None, BACKEND_API_KEY = None\<rparr>
     (Inr (JObj [(js ''question'', JStr (js ''hi ''))])) (Rejected [])
   \<and> map body (snd (POST \<lparr>BACKEND_BASE_URL = None, BACKEND_API_KEY = None\<rparr>
        (Inr (JObj [(js ''question'', JStr (js '' hi'')), (js ''debug'', JBool True)])) (Rejected [])))
     = [JObj [(js ''question'', JStr (js ''hi''))]]"
proof -
  have h1: "opt_prop (JObj [(js ''question'', JStr (js '' hi'')), (js ''debug'', JBool True)]) (js ''question'')
              = Some (JStr (js '' hi''))"
    by simp
  have h2: "opt_prop (JObj [(js ''question'', JStr (js ''hi ''))]) (js ''question'') = Some (JStr (js ''hi ''))"
    by simp
  have t1: "trim (js '' hi'') = js ''hi''" and t2: "trim (js ''hi '') = js ''hi''"
    by (simp_all add: trim_def is_js_space_def js_def)
  have h3: "trim (js '' hi'') = trim (js ''hi '')"
    by (simp only: t1 t2)
  have ne: "js ''hi'' \<noteq> []"
    by (simp add: js_def)
  show ?thesis
    using POST_depends_on_trimmed_question_only [OF h1 h2 h3,
            of "\<lparr>BACKEND_BASE_URL = None, BACKEND_API_KEY = None\<rparr>" "Rejected []"] ne
    unfolding t1 by blast
qed

section \<open>Failures in the proxy route\<close>

text \<open>No exception leaves \<open>POST\<close>: the response built in the \<^verbatim>\<open>catch\<close> block is valid.\<close>

lemma POST_never_throws: "\<exists>r. fst (POST env request outcome) = Inr r"
  by (simp add: fst_POST NextResponse_json_def split: sum.split)

text \<open>
  Claim C2. When the backend's body fails to parse as JSON, the handler should answer
  with status 500 or the backend's own status and a generic \<open>detail\<close>, and throw
  nothing. The handler does build the error body \<open>{detail: "Invalid backend response."}\<close>,
  but when the backend's status is 2xx it sends that body with status 200: for a backend
  that answers 201 with a body that is not JSON, the response has status 200, which is
  neither 500 nor 201.
\<close>

theorem POST_unparsable_2xx_gives_200:
  "fst (POST \<lparr>BACKEND_BASE_URL = None, BACKEND_API_KEY = None\<rparr>
          (Inr (JObj [(js ''question'', JStr (js ''hi''))]))
          (Responded 201 (Inl (js ''Unexpected end of JSON input''))))
   = Inr \<lparr>status = 200, json = JObj [(js ''detail'', JStr (js ''Invalid backend response.''))]\<rparr>
   \<and> status \<lparr>status = 200, json = JObj [(js ''detail'', JStr (js ''Invalid backend response.''))]\<rparr>
       \<notin> {500, 201}"
proof -
  have h1: "opt_prop (JObj [(js ''question'', JStr (js ''hi''))]) (js ''question'') = Some (JStr (js ''hi''))"
    by simp
  have h2: "trim (js ''hi'') \<noteq> []"
    by (simp add: trim_def is_js_space_def js_def)
  show ?thesis
    by (simp add: fst_POST fst_POST_try_responded [OF h1 h2] ok_def NextResponse_json_def
          detail_body_def)
qed

text \<open>
  The sibling path does what the claim says: with a status that is not 2xx the same error
  body goes out with the backend's status, or with 500 and the detail of the
  \<^verbatim>\<open>catch\<close> block when no response with a body can carry that status.
\<close>

lemma POST_unparsable_not_2xx:
  assumes "opt_prop b (js ''question'') = Some (JStr q)" and "trim q \<noteq> []"
    and "\<not> (200 \<le> st \<and> st \<le> 299)"
  shows "fst (POST env (Inr b) (Responded st (Inl m))) =
           Inr (if st < 200 \<or> 599 < st \<or> st = 304 then
                  \<lparr>status = 500, json = JObj [(js ''detail'', JStr (js ''Failed to process request.''))]\<rparr>
                else
                  \<lparr>status = st, json = JObj [(js ''detail'', JStr (js ''Invalid backend response.''))]\<rparr>)"
proof -
  have d: "or_else (opt_prop (detail_body (JStr (js ''Invalid backend response.''))) (js ''detail''))
             (JStr (js ''Backend request failed.'')) = JStr (js ''Invalid backend response.'')"
    by (simp add: detail_body_def js_def)
  from assms(3) have n: "st \<noteq> 204" "st \<noteq> 205" and nok: "\<not> ok st"
    by (auto simp: ok_def)
  show ?thesis
    by (simp add: fst_POST fst_POST_try_responded [OF assms(1,2)] d nok n NextResponse_json_def)
       (simp add: detail_body_def)
qed

section \<open>One submission\<close>

lemma askQuestion_start_Some:
  "trim text \<noteq> [] \<Longrightarrow>
   askQuestion_start text s =
     Some (s\<lparr>loading := True,
             error := [],
             fetches := fetches s @
               [\<lparr>url = js ''/api/ask'', http_method = js ''POST'',
                 headers = [(js ''Content-Type'', js ''application/json'')],
                 body = JObj [(js ''question'', JStr (trim text))],
                 cache = None\<rparr>],
             pending := pending s + 1\<rparr>)"
  by (simp add: askQuestion_start_def)

lemma askQuestion_start_None: "trim text = [] \<Longrightarrow> askQuestion_start text s = None"
  by (simp add: askQuestion_start_def)

lemma start_fields:
  assumes "askQuestion_start text s = Some s1"
  shows "recognitionRef s1 = recognitionRef s" and "listening s1 = listening s"
    and "loading s1" and "error s1 = []" and "pending s1 = pending s + 1"
  using assms by (auto simp: askQuestion_start_def Let_def split: if_splits)

lemma speak_fields:
  "recognitionRef (fst (speak br t s)) = recognitionRef s"
  "listening (fst (speak br t s)) = listening s"
  "loading (fst (speak br t s)) = loading s"
  "error (fst (speak br t s)) = error s"
  "pending (fst (speak br t s)) = pending s"
  by (simp_all add: speak_def Let_def split: option.split sum.split)

lemma try_cases:
  "fst (askQuestion_try br outcome s) = s
   \<or> (\<exists>a r. fst (askQuestion_try br outcome s) = s\<lparr>answer := a, route := r\<rparr>)
   \<or> (\<exists>a r t. fst (askQuestion_try br outcome s) = fst (speak br t (s\<lparr>answer := a, route := r\<rparr>)))"
proof (cases outcome)
  case (Rejected m)
  then show ?thesis by (simp add: askQuestion_try_def)
next
  case (Responded st parsed)
  show ?thesis
  proof (cases parsed)
    case (Inl m)
    with Responded show ?thesis by (simp add: askQuestion_try_def)
  next
    case (Inr data)
    show ?thesis
    proof (cases "ok st \<and> data \<noteq> JNull")
      case False
      with Responded Inr show ?thesis
        by (auto simp: askQuestion_try_def split: sum.split)
    next
      case True
      show ?thesis
      proof (cases "opt_prop data (js ''answer'')")
        case None
        with True Responded Inr show ?thesis
          by (simp add: askQuestion_try_def Let_def) blast
      next
        case (Some a)
        show ?thesis
        proof (cases "truthy a")
          case False
          with Some True Responded Inr show ?thesis
            by (simp add: askQuestion_try_def Let_def) blast
        next
          case t: True
          have "fst (askQuestion_try br outcome s)
                  = fst (speak br a (s\<lparr>answer := a, route := or_else (opt_prop data (js ''route'')) (JStr [])\<rparr>))"
            using t Some True Responded Inr
            by (simp add: askQuestion_try_def Let_def split: prod.split option.split)
          then show ?thesis by blast
        qed
      qed
    qed
  qed
qed

lemma try_fields:
  "recognitionRef (fst (askQuestion_try br outcome s)) = recognitionRef s"
  "listening (fst (askQuestion_try br outcome s)) = listening s"
  "pending (fst (askQuestion_try br outcome s)) = pending s"
  "loading (fst (askQuestion_try br outcome s)) = loading s"
  using try_cases [of br outcome s] by (auto simp: speak_fields)

lemma settle_fields:
  "recognitionRef (askQuestion_settle br outcome s) = recognitionRef s"
  "listening (askQuestion_settle br outcome s) = listening s"
  "pending (askQuestion_settle br outcome s) = pending s - 1"
  using try_fields [of br outcome s]
  by (auto simp: askQuestion_settle_def Let_def split: prod.split option.split)

lemma loading_settle: "\<not> loading (askQuestion_settle br outcome s)"
  by (simp add: askQuestion_settle_def Let_def split: prod.split option.split)

lemma onresult_fields:
  "recognitionRef (recognition_onresult t s) = recognitionRef s"
  "listening (recognition_onresult t s) = listening s"
  by (simp_all add: recognition_onresult_def askQuestion_start_def Let_def)

text \<open>
  In a calm run \<open>loading\<close> counts the pending calls: one while it is true, none while it
  is false.
\<close>

lemma step_counts:
  assumes "pending s = (if loading s then 1 else 0)" and "\<not> overlaps s e"
    and "step br s e = Some s1"
  shows "pending s1 = (if loading s1 then 1 else 0)"
proof (cases e)
  case ClickStart
  with assms show ?thesis
    by (auto simp: onStartListening_def Let_def split: if_splits option.splits)
next
  case ClickStop
  with assms show ?thesis
    by (auto simp: onStopListening_def Let_def split: if_splits option.splits)
next
  case ClickAsk
  with assms(3) have g: "trim (question s) \<noteq> []" and l: "\<not> loading s"
    by (auto split: if_splits)
  from ClickAsk assms(3) g l have "loading s1" and "pending s1 = pending s + 1"
    by (auto simp: askQuestion_start_Some)
  with assms(1) l show ?thesis
    by simp
next
  case ClickReplay
  with assms show ?thesis
    by (auto simp: speak_fields split: if_splits)
next
  case (RecResult t)
  show ?thesis
  proof (cases "askQuestion_start (case t of None \<Rightarrow> [] | Some x \<Rightarrow> if x \<noteq> [] then x else [])
                  (s\<lparr>question := (case t of None \<Rightarrow> [] | Some x \<Rightarrow> if x \<noteq> [] then x else [])\<rparr>)")
    case None
    with RecResult assms(3) have "s1 = s\<lparr>question := (case t of None \<Rightarrow> [] | Some x \<Rightarrow> if x \<noteq> [] then x else [])\<rparr>"
      by (auto simp: recognition_onresult_def Let_def split: if_splits)
    with assms(1) show ?thesis
      by simp
  next
    case (Some s2)
    with RecResult assms(3) have eq: "s1 = s2"
      by (auto simp: recognition_onresult_def Let_def split: if_splits)
    from Some have "trim (case t of None \<Rightarrow> [] | Some x \<Rightarrow> if x \<noteq> [] then x else []) \<noteq> []"
      by (auto simp: askQuestion_start_def Let_def split: if_splits)
    then have "case t of None \<Rightarrow> False | Some x \<Rightarrow> trim x \<noteq> []"
      by (cases t) (auto simp: trim_def split: if_splits)
    with RecResult assms(2) have p0: "pending s = 0"
      by simp
    from start_fields(3,5) [OF Some] have "loading s2" and "pending s2 = pending s + 1"
      by simp_all
    with p0 eq show ?thesis
      by simp
  qed
next
  case (Settled outcome)
  with assms have s1: "s1 = askQuestion_settle br outcome s" and p: "pending s \<noteq> 0"
    by (auto split: if_splits)
  show ?thesis
    using assms(1) p unfolding s1
    by (auto simp: settle_fields loading_settle split: if_splits)
qed (use assms in \<open>auto simp: useEffect_mount_def recognition_onstart_def
       recognition_onerror_def recognition_onend_def split: if_splits\<close>)

lemma run_counts:
  "pending s = (if loading s then 1 else 0) \<Longrightarrow> calm br s es \<Longrightarrow> run br s es = Some s1
   \<Longrightarrow> pending s1 = (if loading s1 then 1 else 0)"
proof (induction es arbitrary: s)
  case Nil
  then show ?case by simp
next
  case (Cons e es)
  from Cons.prems(3) obtain s2 where st: "step br s e = Some s2" and rest: "run br s2 es = Some s1"
    by (auto split: option.splits)
  from Cons.prems(2) st have no: "\<not> overlaps s e" and c: "calm br s2 es"
    by simp_all
  from step_counts [OF Cons.prems(1) no st] have "pending s2 = (if loading s2 then 1 else 0)" .
  from Cons.IH [OF this c rest] show ?case .
qed

text \<open>
  Claim C3, as stated, does not hold. A recognizer result that arrives while a typed
  question is pending starts a second call; when the first of the two settles, \<open>loading\<close>
  is false although the other call has not resolved. And a call with a blank text (a
  result without transcript) made while a call is pending returns with \<open>loading\<close> true.
\<close>

theorem loading_overlap_counterexample:
  "map_option loading
     (run full_browser initial
        [ClickStart, RecStart, Typed (js ''hi''), ClickAsk, RecResult (Some (js ''who'')),
         Settled (Rejected (js ''Failed to fetch''))]) = Some False
   \<and> map_option pending
       (run full_browser initial
          [ClickStart, RecStart, Typed (js ''hi''), ClickAsk, RecResult (Some (js ''who'')),
           Settled (Rejected (js ''Failed to fetch''))]) = Some 1
   \<and> map_option loading
       (run full_browser initial [ClickStart, Typed (js ''hi''), ClickAsk, RecResult None])
       = Some True"
proof -
  have t: "trim (js ''hi'') = js ''hi''" "trim (js ''who'') = js ''who''" "trim [] = []"
    by (simp_all add: trim_def is_js_space_def js_def)
  have ne: "js ''hi'' \<noteq> []" "js ''who'' \<noteq> []"
    by (simp_all add: js_def)
  have c: "createSpeechRecognition full_browser
             = Some \<lparr>lang = js ''en-US'', interimResults = False, maxAlternatives = 1\<rparr>"
    by (simp add: createSpeechRecognition_def full_browser_def)
  show ?thesis
    by (simp add: initial_def onStartListening_def c recognition_onstart_def
          recognition_onresult_def askQuestion_start_def askQuestion_settle_def
          askQuestion_try_def Let_def t ne)
qed

text \<open>
  Claim C3, amended. A call of \<open>askQuestion\<close> with a text whose trimmed form is not empty
  sets \<open>loading\<close> when it starts, and its resolution sets \<open>loading\<close> to false, whatever
  the \<open>fetch\<close> did (it rejected, the body did not parse, the status was not 2xx, or all
  was well) and in whatever state the page is by then. A call with a text that trims to
  the empty string returns at once and leaves the state, \<open>loading\<close> included, as it was.
  In every run in which no call starts while another is pending, \<open>loading\<close> is true
  exactly while a call is between its start and its resolution.
\<close>

theorem askQuestion_loading:
  "(trim text \<noteq> [] \<longrightarrow>
      (\<exists>s1. askQuestion_start text s = Some s1 \<and> loading s1
            \<and> askQuestion br text outcome s = askQuestion_settle br outcome s1
            \<and> \<not> loading (askQuestion br text outcome s)))
   \<and> (trim text = [] \<longrightarrow>
        askQuestion_start text s = None \<and> askQuestion br text outcome s = s)
   \<and> \<not> loading (askQuestion_settle br outcome s2)
   \<and> (run br initial es = Some s3 \<and> calm br initial es \<longrightarrow>
        (loading s3 \<longleftrightarrow> pending s3 = 1) \<and> (\<not> loading s3 \<longleftrightarrow> pending s3 = 0))"
proof -
  have "pending initial = (if loading initial then 1 else 0)"
    by (simp add: initial_def)
  from run_counts [OF this]
  have "pending s3 = (if loading s3 then 1 else 0)"
    if "calm br initial es" and "run br initial es = Some s3"
    using that by blast
  then have calm_runs: "run br initial es = Some s3 \<and> calm br initial es \<longrightarrow>
        (loading s3 \<longleftrightarrow> pending s3 = 1) \<and> (\<not> loading s3 \<longleftrightarrow> pending s3 = 0)"
    by auto
  have started: "trim text \<noteq> [] \<longrightarrow>
      (\<exists>s1. askQuestion_start text s = Some s1 \<and> loading s1
            \<and> askQuestion br text outcome s = askQuestion_settle br outcome s1
            \<and> \<not> loading (askQuestion br text outcome s))"
    by (simp add: askQuestion_def askQuestion_start_Some loading_settle)
  have blank: "trim text = [] \<longrightarrow>
        askQuestion_start text s = None \<and> askQuestion br text outcome s = s"
    by (simp add: askQuestion_def askQuestion_start_None)
  from started blank loading_settle [of br outcome s2] calm_runs show ?thesis
    by (intro conjI)
qed

theorem askQuestion_loading_witness:
  "trim (js ''hi'') \<noteq> []
   \<and> map_option loading (askQuestion_start (js ''hi'') initial) = Some True
   \<and> \<not> loading (askQuestion full_browser (js ''hi'') (Rejected (js ''Failed to fetch'')) initial)
   \<and> trim (js '' '') = []
   \<and> askQuestion full_browser (js '' '') (Rejected (js ''Failed to fetch'')) initial = initial
   \<and> calm full_browser initial [Typed (js ''hi''), ClickAsk]
   \<and> map_option loading (run full_browser initial [Typed (js ''hi''), ClickAsk]) = Some True
   \<and> map_option pending (run full_browser initial [Typed (js ''hi''), ClickAsk]) = Some 1"
  (is "_ \<and> _ \<and> _ \<and> _ \<and> _ \<and> ?calm \<and> map_option loading ?run = _ \<and> _")
proof -
  have h1: "trim (js ''hi'') \<noteq> []" and h2: "trim (js '' '') = []"
    by (simp_all add: trim_def is_js_space_def js_def)
  have c: ?calm
    by (simp add: initial_def)
  have l: "map_option loading ?run = Some True"
    by (simp add: initial_def h1 askQuestion_start_Some [OF h1])
  then obtain s3 where r: "?run = Some s3" and l3: "loading s3"
    by blast
  from askQuestion_loading [of "js ''hi''" initial full_browser "Rejected (js ''Failed to fetch'')"
         initial "[Typed (js ''hi''), ClickAsk]" s3] r c l3
  have "pending s3 = 1"
    by blast
  then have p: "map_option pending ?run = Some 1"
    by (simp only: r option.map)
  show ?thesis
    using h1 h2 c l p
      askQuestion_loading [of "js ''hi''" initial full_browser "Rejected (js ''Failed to fetch'')"
         initial "[]" initial]
      askQuestion_loading [of "js '' ''" initial full_browser "Rejected (js ''Failed to fetch'')"
         initial "[]" initial]
    by auto
qed

section \<open>The answer to a submission\<close>

lemma speak_string:
  "speak br (JStr a) s =
     ((case window br of
         None \<Rightarrow> s
       | Some w \<Rightarrow>
           if speechSynthesis w
           then s\<lparr>cancels := cancels s + 1, utterances := utterances s @ [a]\<rparr>
           else s),
      None)"
  by (simp add: speak_def Let_def split: option.split)

lemma settle_success:
  assumes "opt_prop data (js ''answer'') = Some (JStr a)"
    and "opt_prop data (js ''route'') = Some (JStr r)"
  shows "askQuestion_settle br (Responded 200 (Inr data)) s =
           (if a \<noteq> [] then fst (speak br (JStr a) (s\<lparr>answer := JStr a, route := JStr r\<rparr>))
            else s\<lparr>answer := JStr a, route := JStr r\<rparr>)
           \<lparr>loading := False,
            pending := pending s - 1\<rparr>"
proof -
  from assms(1) have "data \<noteq> JNull"
    by auto
  with assms show ?thesis
    by (simp add: askQuestion_settle_def askQuestion_try_def ok_def speak_string
          split: option.split)
qed

text \<open>
  Claim C7, as stated, does not hold: a 200 response whose \<open>answer\<close> is the empty string
  triggers no speech playback, even in a browser that has speech synthesis.
\<close>

theorem askQuestion_empty_answer_counterexample:
  "utterances (askQuestion full_browser (js ''hi'')
                 (Responded 200 (Inr (JObj [(js ''answer'', JStr []), (js ''route'', JStr (js ''rag''))])))
                 initial) = []
   \<and> cancels (askQuestion full_browser (js ''hi'')
                 (Responded 200 (Inr (JObj [(js ''answer'', JStr []), (js ''route'', JStr (js ''rag''))])))
                 initial) = 0"
proof -
  have h: "trim (js ''hi'') \<noteq> []"
    by (simp add: trim_def is_js_space_def js_def)
  have a: "opt_prop (JObj [(js ''answer'', JStr []), (js ''route'', JStr (js ''rag''))]) (js ''answer'')
             = Some (JStr [])"
    by simp
  have r: "opt_prop (JObj [(js ''answer'', JStr []), (js ''route'', JStr (js ''rag''))]) (js ''route'')
             = Some (JStr (js ''rag''))"
    by (simp add: js_def)
  show ?thesis
    by (simp add: askQuestion_def askQuestion_start_Some [OF h] settle_success [OF a r] initial_def)
qed

text \<open>
  Claim C7, amended. A submission clears \<open>error\<close> when it starts. When the proxy answers
  it with status 200 and a body whose \<open>answer\<close> and \<open>route\<close> are strings, the resolution,
  in whatever state the page is by then, sets \<open>loading\<close> to false and \<open>answer\<close> and
  \<open>route\<close> to the strings of the response, and leaves \<open>error\<close> as it finds it: empty
  when nothing else has set it since the start, in particular when nothing happens
  between start and resolution. The answer is handed to speech synthesis when it is not
  the empty string and the browser has speech synthesis; otherwise nothing is spoken.
\<close>

theorem askQuestion_success:
  assumes "opt_prop data (js ''answer'') = Some (JStr a)"
    and "opt_prop data (js ''route'') = Some (JStr r)"
  shows "loading (askQuestion_settle br (Responded 200 (Inr data)) s) = False
         \<and> answer (askQuestion_settle br (Responded 200 (Inr data)) s) = JStr a
         \<and> route (askQuestion_settle br (Responded 200 (Inr data)) s) = JStr r
         \<and> error (askQuestion_settle br (Responded 200 (Inr data)) s) = error s
         \<and> utterances (askQuestion_settle br (Responded 200 (Inr data)) s) =
             utterances s @
               (if a \<noteq> [] \<and> (case window br of None \<Rightarrow> False | Some w \<Rightarrow> speechSynthesis w)
                then [a] else [])
         \<and> (trim text \<noteq> [] \<longrightarrow>
              (\<exists>s1. askQuestion_start text s0 = Some s1 \<and> error s1 = []
                    \<and> askQuestion br text (Responded 200 (Inr data)) s0
                        = askQuestion_settle br (Responded 200 (Inr data)) s1)
              \<and> error (askQuestion br text (Responded 200 (Inr data)) s0) = [])"
proof -
  have at_settle: "loading (askQuestion_settle br (Responded 200 (Inr data)) s) = False
         \<and> answer (askQuestion_settle br (Responded 200 (Inr data)) s) = JStr a
         \<and> route (askQuestion_settle br (Responded 200 (Inr data)) s) = JStr r
         \<and> error (askQuestion_settle br (Responded 200 (Inr data)) s) = error s
         \<and> utterances (askQuestion_settle br (Responded 200 (Inr data)) s) =
             utterances s @
               (if a \<noteq> [] \<and> (case window br of None \<Rightarrow> False | Some w \<Rightarrow> speechSynthesis w)
                then [a] else [])" for s
    by (simp add: settle_success [OF assms] speak_string split: option.split)
  have whole: "(\<exists>s1. askQuestion_start text s0 = Some s1 \<and> error s1 = []
                    \<and> askQuestion br text (Responded 200 (Inr data)) s0
                        = askQuestion_settle br (Responded 200 (Inr data)) s1)
              \<and> error (askQuestion br text (Responded 200 (Inr data)) s0) = []"
    if t: "trim text \<noteq> []"
  proof -
    obtain s1 where s1: "askQuestion_start text s0 = Some s1" and e: "error s1 = []"
      using askQuestion_start_Some [OF t, of s0] by simp
    then have "askQuestion br text (Responded 200 (Inr data)) s0
                 = askQuestion_settle br (Responded 200 (Inr data)) s1"
      by (simp add: askQuestion_def)
    with s1 e at_settle [of s1] show ?thesis
      by simp
  qed
  from at_settle [of s] whole show ?thesis
    by blast
qed

theorem askQuestion_success_witness:
  "answer (askQuestion_settle full_browser
             (Responded 200 (Inr (JObj [(js ''answer'', JStr (js ''Room 12'')), (js ''route'', JStr (js ''rag''))])))
             (initial\<lparr>error := js ''Voice error: no-speech''\<rparr>)) = JStr (js ''Room 12'')
   \<and> error (askQuestion_settle full_browser
             (Responded 200 (Inr (JObj [(js ''answer'', JStr (js ''Room 12'')), (js ''route'', JStr (js ''rag''))])))
             (initial\<lparr>error := js ''Voice error: no-speech''\<rparr>)) = js ''Voice error: no-speech''
   \<and> utterances (askQuestion_settle full_browser
             (Responded 200 (Inr (JObj [(js ''answer'', JStr (js ''Room 12'')), (js ''route'', JStr (js ''rag''))])))
             (initial\<lparr>error := js ''Voice error: no-speech''\<rparr>)) = [js ''Room 12'']
   \<and> error (askQuestion full_browser (js ''hi'')
             (Responded 200 (Inr (JObj [(js ''answer'', JStr (js ''Room 12'')), (js ''route'', JStr (js ''rag''))])))
             (initial\<lparr>error := js ''Voice error: no-speech''\<rparr>)) = []"
proof -
  have h: "trim (js ''hi'') \<noteq> []"
    by (simp add: trim_def is_js_space_def js_def)
  have a: "opt_prop (JObj [(js ''answer'', JStr (js ''Room 12'')), (js ''route'', JStr (js ''rag''))]) (js ''answer'')
             = Some (JStr (js ''Room 12''))"
    by simp
  have r: "opt_prop (JObj [(js ''answer'', JStr (js ''Room 12'')), (js ''route'', JStr (js ''rag''))]) (js ''route'')
             = Some (JStr (js ''rag''))"
    by (simp add: js_def)
  have ne: "js ''Room 12'' \<noteq> []"
    by (simp add: js_def)
  have u: "utterances (initial\<lparr>error := js ''Voice error: no-speech''\<rparr>) = []"
    by (simp add: initial_def)
  have w: "window full_browser = Some \<lparr>SpeechRecognition = True, speechSynthesis = True\<rparr>"
    by (simp add: full_browser_def)
  show ?thesis
    using askQuestion_success [OF a r, of full_browser "initial\<lparr>error := js ''Voice error: no-speech''\<rparr>"
            "js ''hi''" "initial\<lparr>error := js ''Voice error: no-speech''\<rparr>"] ne h
    by (simp add: u w)
qed

text \<open>
  Claim C8. After a submission that the proxy answers with status 400 and a body whose
  \<open>detail\<close> is a non-empty string, \<open>error\<close> is that string and \<open>answer\<close> is what it was
  before the submission.
\<close>

theorem askQuestion_400_detail:
  assumes "trim text \<noteq> []"
    and "opt_prop data (js ''detail'') = Some (JStr x)" and "x \<noteq> []"
  shows "error (askQuestion br text (Responded 400 (Inr data)) s) = x
         \<and> answer (askQuestion br text (Responded 400 (Inr data)) s) = answer s"
  using assms(2,3)
  by (simp add: askQuestion_def askQuestion_start_Some [OF assms(1)] askQuestion_settle_def
        askQuestion_try_def ok_def)

theorem askQuestion_400_detail_witness:
  "error (askQuestion plain_browser (js ''hi'')
            (Responded 400 (Inr (JObj [(js ''detail'', JStr (js ''Question is required.''))])))
            (initial\<lparr>answer := JStr (js ''Room 12'')\<rparr>)) = js ''Question is required.''
   \<and> answer (askQuestion plain_browser (js ''hi'')
            (Responded 400 (Inr (JObj [(js ''detail'', JStr (js ''Question is required.''))])))
            (initial\<lparr>answer := JStr (js ''Room 12'')\<rparr>)) = JStr (js ''Room 12'')"
proof -
  have h: "trim (js ''hi'') \<noteq> []"
    by (simp add: trim_def is_js_space_def js_def)
  have d: "opt_prop (JObj [(js ''detail'', JStr (js ''Question is required.''))]) (js ''detail'')
             = Some (JStr (js ''Question is required.''))"
    by simp
  have ne: "js ''Question is required.'' \<noteq> []"
    by (simp add: js_def)
  show ?thesis
    using askQuestion_400_detail [OF h d ne, of plain_browser "initial\<lparr>answer := JStr (js ''Room 12'')\<rparr>"]
    by simp
qed

section \<open>Runs of the page\<close>










end
